theory Spec2Isabelle
  imports Main "HOL-Library.Sublist"
begin

section \<open>The JavaScript values the adapter handles\<close>

text \<open>
  The adapter (src/redis-brain.js) is a bridge between three collaborators it does not
  implement: the host robot (logger and brain), the Redis client, and the runtime
  library (\<open>Url.parse\<close>, \<open>JSON.parse\<close>, \<open>JSON.stringify\<close>). The model
  keeps the adapter's own code as functions and records every call it makes on a
  collaborator as an \<open>action\<close>, in program order. The runtime library is a parameter.

  \<open>process.env\<close> maps names to strings; an unset variable reads as \<open>undefined\<close>,
  which is \<open>None\<close> here. A string is truthy when it is not empty.
\<close>

type_synonym env = "string \<rightharpoonup> string"

fun str_truthy :: "string option \<Rightarrow> bool" where
  "str_truthy None = False"
| "str_truthy (Some s) = (s \<noteq> [])"

text \<open>\<open>x || d\<close> on a string or undefined \<open>x\<close>.\<close>

definition or_default :: "string option \<Rightarrow> string \<Rightarrow> string" where
  "or_default x d = (case x of None \<Rightarrow> d | Some s \<Rightarrow> if s = [] then d else s)"

text \<open>
  Values that JSON text denotes. \<open>undefined\<close> is not one of them: a value that may be
  undefined is a \<open>json option\<close>. Numbers are the integer-valued ones (a port number is
  one), named by their value; how a number prints is the runtime's and a parameter of
  \<open>to_string\<close>. Strings are lists of characters.
\<close>

datatype json =
    JNull
  | JBool bool
  | JNum int
  | JStr string
  | JArr "json list"
  | JObj "(string \<times> json) list"

fun js_truthy :: "json option \<Rightarrow> bool" where
  "js_truthy None = False"
| "js_truthy (Some JNull) = False"
| "js_truthy (Some (JBool b)) = b"
| "js_truthy (Some (JNum n)) = (n \<noteq> 0)"
| "js_truthy (Some (JStr s)) = (s \<noteq> [])"
| "js_truthy (Some (JArr xs)) = True"
| "js_truthy (Some (JObj kvs)) = True"

text \<open>Errors that propagate as exceptions.\<close>

record error_obj =
  message :: string
  stack :: string

datatype exn = TypeError | SyntaxError | Rethrown error_obj

definition bind_exn :: "exn + 'a \<Rightarrow> ('a \<Rightarrow> exn + 'b) \<Rightarrow> exn + 'b" where
  "bind_exn m f = (case m of Inl x \<Rightarrow> Inl x | Inr v \<Rightarrow> f v)"

subsection \<open>String conversion\<close>

fun join_with :: "string \<Rightarrow> string list \<Rightarrow> string" where
  "join_with sep [] = []"
| "join_with sep [x] = x"
| "join_with sep (x # y # ys) = x @ sep @ join_with sep (y # ys)"

text \<open>
  The conversion to a string that \<open>+\<close> applies to an operand, with \<open>ns\<close> the
  conversion of numbers. An array is its elements joined by commas, null elements as the
  empty string. An object is \<open>[object Object]\<close>, unless it has an own property
  \<open>toString\<close>: a value read from JSON is never a function, so no method gives a
  primitive and the conversion throws a TypeError.
\<close>

fun to_string :: "(int \<Rightarrow> string) \<Rightarrow> json \<Rightarrow> exn + string"
  and elements_to_strings :: "(int \<Rightarrow> string) \<Rightarrow> json list \<Rightarrow> exn + string list" where
  "to_string ns JNull = Inr ''null''"
| "to_string ns (JBool b) = Inr (if b then ''true'' else ''false'')"
| "to_string ns (JNum n) = Inr (ns n)"
| "to_string ns (JStr s) = Inr s"
| "to_string ns (JArr xs) =
     bind_exn (elements_to_strings ns xs) (\<lambda>ss. Inr (join_with '','' ss))"
| "to_string ns (JObj kvs) =
     (if map_of kvs ''toString'' = None then Inr ''[object Object]'' else Inl TypeError)"
| "elements_to_strings ns [] = Inr []"
| "elements_to_strings ns (x # xs) =
     bind_exn (if x = JNull then Inr [] else to_string ns x)
       (\<lambda>s. bind_exn (elements_to_strings ns xs) (\<lambda>ss. Inr (s # ss)))"

definition to_string_opt :: "(int \<Rightarrow> string) \<Rightarrow> json option \<Rightarrow> exn + string" where
  "to_string_opt ns v = (case v of None \<Rightarrow> Inr ''undefined'' | Some j \<Rightarrow> to_string ns j)"

definition str_or_undefined :: "string option \<Rightarrow> string" where
  "str_or_undefined v = (case v of None \<Rightarrow> ''undefined'' | Some s \<Rightarrow> s)"

subsection \<open>Property access and iteration\<close>

text \<open>
  A property name is an array index when it is the decimal numeral of a natural number,
  without leading zeros.
\<close>

definition array_index :: "string \<Rightarrow> nat option" where
  "array_index k =
     (if k = [] then None
      else if \<exists>c \<in> set k. c \<notin> set ''0123456789'' then None
      else if hd k = CHR ''0'' \<and> k \<noteq> ''0'' then None
      else Some (foldl (\<lambda>n c. 10 * n + (of_char c - 48)) 0 k))"

text \<open>
  \<open>v[k]\<close>: reading a property of \<open>undefined\<close> or \<open>null\<close> throws a TypeError. Own
  properties only: what the built-in prototypes would add (\<open>toString\<close>,
  \<open>constructor\<close>, ...) are functions and plain objects, which the adapter can only pass to
  \<open>for ... of\<close>, where they throw the same TypeError as \<open>undefined\<close> does.
\<close>

fun get_prop :: "json option \<Rightarrow> string \<Rightarrow> exn + json option" where
  "get_prop None k = Inl TypeError"
| "get_prop (Some JNull) k = Inl TypeError"
| "get_prop (Some (JObj kvs)) k = Inr (map_of kvs k)"
| "get_prop (Some (JArr xs)) k =
     Inr (if k = ''length'' then Some (JNum (int (length xs)))
          else case array_index k of
                 None \<Rightarrow> None
               | Some i \<Rightarrow> if i < length xs then Some (xs ! i) else None)"
| "get_prop (Some (JStr s)) k =
     Inr (if k = ''length'' then Some (JNum (int (length s)))
          else case array_index k of
                 None \<Rightarrow> None
               | Some i \<Rightarrow> if i < length s then Some (JStr [s ! i]) else None)"
| "get_prop (Some (JBool b)) k = Inr None"
| "get_prop (Some (JNum n)) k = Inr None"

text \<open>\<open>for (let x of v)\<close>: arrays and strings are iterable, nothing else here is.\<close>

fun iterate :: "json option \<Rightarrow> exn + json list" where
  "iterate (Some (JArr xs)) = Inr xs"
| "iterate (Some (JStr s)) = Inr (map (\<lambda>c. JStr [c]) s)"
| "iterate v = Inl TypeError"

text \<open>\<open>v === s\<close> for a value \<open>v\<close> and a string or undefined \<open>s\<close>.\<close>

definition strict_eq :: "json option \<Rightarrow> string option \<Rightarrow> bool" where
  "strict_eq v s = (v = map_option JStr s)"

subsection \<open>String helpers\<close>

text \<open>\<open>/pat/.test(s)\<close> for a pattern of plain characters: \<open>pat\<close> occurs in \<open>s\<close>.\<close>

fun regex_test :: "string \<Rightarrow> string \<Rightarrow> bool" where
  "regex_test pat [] = (pat = [])"
| "regex_test pat (c # cs) = (prefix pat (c # cs) \<or> regex_test pat cs)"

text \<open>\<open>s.split(c)\<close> for a one-character separator.\<close>

fun split_on :: "char \<Rightarrow> string \<Rightarrow> string list" where
  "split_on c [] = [[]]"
| "split_on c (x # xs) =
     (if x = c then [] # split_on c xs
      else case split_on c xs of
             [] \<Rightarrow> [[x]]
           | w # ws \<Rightarrow> (x # w) # ws)"

text \<open>\<open>xs[i]\<close> on an array of strings: undefined out of range.\<close>

definition nth_opt :: "'a list \<Rightarrow> nat \<Rightarrow> 'a option" where
  "nth_opt xs i = (if i < length xs then Some (xs ! i) else None)"

section \<open>The collaborators\<close>

text \<open>What \<open>Url.parse\<close> returns, as far as the adapter reads it (null is \<open>None\<close>).\<close>

record url_info =
  auth :: "string option"
  hostname :: "string option"
  port :: "string option"
  pathname :: "string option"
  path :: "string option"
  query :: "string option"

text \<open>
  The runtime library: \<open>Url.parse\<close>, \<open>JSON.parse\<close>, \<open>JSON.stringify\<close>, and the
  conversion of a number to a string.
\<close>

record platform =
  url_parse :: "string \<Rightarrow> exn + url_info"
  json_parse :: "string \<Rightarrow> exn + json"
  json_stringify :: "json \<Rightarrow> string"
  number_to_string :: "int \<Rightarrow> string"

text \<open>
  The calls the adapter makes on the robot and on the Redis client.
  \<open>CreateClientSocket p\<close> is \<open>Redis.createClient(p)\<close>; \<open>CreateClient p h b\<close> is
  \<open>Redis.createClient(p, h)\<close>, with \<open>{no_ready_check: true}\<close> as third argument when
  \<open>b\<close> holds. \<open>ClientOn\<close> and \<open>BrainOn\<close> register a handler for the named event.
\<close>

datatype action =
    LogInfo string
  | LogDebug string
  | LogError string
  | CreateClientSocket "string option"
  | CreateClient "string option" "string option" bool
  | SetAutoSave bool
  | MergeData json
  | Emit string
  | ClientAuth "string option"
  | ClientGet string
  | ClientSet string string
  | ClientQuit
  | ClientOn string
  | BrainOn string

text \<open>What the handlers close over: \<open>prefix\<close> and \<open>info\<close>.\<close>

record config =
  cfg_prefix :: string
  cfg_info :: url_info

section \<open>Connection-target resolution\<close>

text \<open>\<open>getRedisEnv\<close> (lines 108-128).\<close>

definition getRedisEnv :: "env \<Rightarrow> string option" where
  "getRedisEnv e =
     (if str_truthy (e ''REDISTOGO_URL'') then Some ''REDISTOGO_URL''
      else if str_truthy (e ''REDISCLOUD_URL'') then Some ''REDISCLOUD_URL''
      else if str_truthy (e ''BOXEN_REDIS_URL'') then Some ''BOXEN_REDIS_URL''
      else if str_truthy (e ''REDIS_URL'') then Some ''REDIS_URL''
      else if str_truthy (e ''CF_REDIS_SERVICE'') then Some ''CF_REDIS_INSTANCE_NAME''
      else None)"

text \<open>
  The loop of \<open>buildCloudFoundryURL\<close> (lines 139-144): the first instance whose
  \<open>name\<close> is identical to \<open>CF_REDIS_INSTANCE_NAME\<close>, undefined when there is none.
\<close>

fun find_instance :: "string option \<Rightarrow> json list \<Rightarrow> exn + json option" where
  "find_instance nm [] = Inr None"
| "find_instance nm (instance # rest) =
     bind_exn (get_prop (Some instance) ''name'')
       (\<lambda>v. if strict_eq v nm then Inr (Some instance) else find_instance nm rest)"

text \<open>
  \<open>buildCloudFoundryURL\<close> (lines 130-155). The concatenation converts its operands
  from left to right, and a conversion that throws ends it.
\<close>

definition parse_services :: "platform \<Rightarrow> env \<Rightarrow> json option" where
  "parse_services P e =
     (case json_parse P (str_or_undefined (e ''VCAP_SERVICES'')) of
        Inr v \<Rightarrow> Some v
      | Inl x \<Rightarrow> map_option JStr (e ''VCAP_SERVICES''))"

definition buildCloudFoundryURL :: "platform \<Rightarrow> env \<Rightarrow> exn + string" where
  "buildCloudFoundryURL P e =
     bind_exn (get_prop (parse_services P e) (str_or_undefined (e ''CF_REDIS_SERVICE'')))
       (\<lambda>redisService. bind_exn (iterate redisService)
       (\<lambda>instances. bind_exn (find_instance (e ''CF_REDIS_INSTANCE_NAME'') instances)
       (\<lambda>hubotInstance. bind_exn (get_prop hubotInstance ''credentials'')
       (\<lambda>redisCreds. bind_exn (get_prop redisCreds ''hostname'')
       (\<lambda>hn. bind_exn (if hn = None then get_prop redisCreds ''host'' else Inr hn)
       (\<lambda>host. bind_exn (get_prop redisCreds ''password'')
       (\<lambda>password. bind_exn (to_string_opt (number_to_string P) password)
       (\<lambda>p. bind_exn (to_string_opt (number_to_string P) host)
       (\<lambda>h. bind_exn (get_prop redisCreds ''port'')
       (\<lambda>prt. bind_exn (to_string_opt (number_to_string P) prt)
       (\<lambda>q. Inr (''redis://:'' @ p @ ''@'' @ h @ '':'' @ q @ ''/''
                   @ str_or_undefined (e ''CF_REDIS_INSTANCE_NAME'')))))))))))))"

text \<open>Lines 24-37: the URL the adapter connects to, with the line it logs.\<close>

definition resolve_url :: "platform \<Rightarrow> env \<Rightarrow> action list \<times> (exn + string option)" where
  "resolve_url P e =
     (let redisUrlEnv = getRedisEnv e in
      if str_truthy redisUrlEnv then
        if redisUrlEnv = Some ''CF_REDIS_INSTANCE_NAME''
        then ([LogInfo (''hubot-redis-brain: Discovered redis from '' @ str_or_undefined redisUrlEnv
                          @ '' environment variable. Pulling from VCAP'')],
              bind_exn (buildCloudFoundryURL P e) (\<lambda>u. Inr (Some u)))
        else ([LogInfo (''hubot-redis-brain: Discovered redis from '' @ str_or_undefined redisUrlEnv
                          @ '' environment variable'')],
              Inr (e (str_or_undefined redisUrlEnv)))
      else ([LogInfo ''hubot-redis-brain: Using default redis on localhost:6379''],
            Inr (Some ''redis://localhost:6379'')))"

section \<open>Startup\<close>

text \<open>Lines 45-53: the client that is created, and the prefix.\<close>

definition create_client :: "url_info \<Rightarrow> env \<Rightarrow> action \<times> string" where
  "create_client info e =
     (if hostname info = Some []
      then (CreateClientSocket (pathname info),
            or_default (if str_truthy (query info) then query info else None) ''hubot'')
      else (if str_truthy (auth info) \<or> str_truthy (e ''REDIS_NO_CHECK'')
            then CreateClient (port info) (hostname info) True
            else CreateClient (port info) (hostname info) False,
            or_default (if str_truthy (path info)
                        then map_option (remove1 CHR ''/'') (path info) else None) ''hubot''))"

text \<open>\<open>info.auth.split(':')[1]\<close> (line 75).\<close>

definition auth_password :: "string \<Rightarrow> string option" where
  "auth_password a = nth_opt (split_on CHR '':'' a) 1"

text \<open>Lines 74-83, the call only; the callback is \<open>auth_callback\<close> below.\<close>

definition auth_step :: "url_info \<Rightarrow> action list" where
  "auth_step info =
     (case auth info of
        None \<Rightarrow> []
      | Some a \<Rightarrow> if a = [] then [] else [ClientAuth (auth_password a)])"

definition registrations :: "action list" where
  "registrations = [ClientOn ''error'', ClientOn ''connect'', BrainOn ''save'', BrainOn ''close'']"

text \<open>
  \<open>module.exports\<close> (lines 22-106): the calls made while the module function runs, and
  either the exception that leaves it or the closure the handlers share. \<open>Url.parse\<close>
  throws a TypeError when its argument is not a string.
\<close>

definition module_exports :: "platform \<Rightarrow> env \<Rightarrow> action list \<times> (exn + config)" where
  "module_exports P e =
     (case resolve_url P e of
        (logs, Inl x) \<Rightarrow> (logs, Inl x)
      | (logs, Inr redisUrl) \<Rightarrow>
          (let logs2 = logs @ (if str_truthy (e ''REDIS_NO_CHECK'')
                               then [LogInfo ''Turning off redis ready checks''] else [])
           in case (case redisUrl of None \<Rightarrow> Inl TypeError | Some u \<Rightarrow> url_parse P u) of
                Inl x \<Rightarrow> (logs2, Inl x)
              | Inr info \<Rightarrow>
                  (logs2 @ [fst (create_client info e), SetAutoSave False]
                     @ auth_step info @ registrations,
                   Inr \<lparr>cfg_prefix = snd (create_client info e), cfg_info = info\<rparr>)))"

section \<open>Handlers\<close>

definition storage_key :: "config \<Rightarrow> string" where
  "storage_key cfg = cfg_prefix cfg @ '':storage''"

text \<open>\<open>getData\<close> (lines 57-58): the call.\<close>

definition getData :: "config \<Rightarrow> action list" where
  "getData cfg = [ClientGet (storage_key cfg)]"

text \<open>
  The callback of \<open>client.get\<close> (lines 58-72), given \<open>err\<close> and \<open>reply\<close>: the calls it
  makes and the exception that leaves it, if any.
\<close>

definition getData_callback ::
  "platform \<Rightarrow> config \<Rightarrow> error_obj option \<Rightarrow> string option \<Rightarrow> action list \<times> exn option" where
  "getData_callback P cfg err reply =
     (case err of
        Some x \<Rightarrow> ([], Some (Rethrown x))
      | None \<Rightarrow>
          if str_truthy reply then
            (case json_parse P (str_or_undefined reply) of
               Inl x \<Rightarrow>
                 ([LogInfo (''hubot-redis-brain: Data for '' @ cfg_prefix cfg
                             @ '' brain retrieved from Redis'')], Some x)
             | Inr v \<Rightarrow>
                 ([LogInfo (''hubot-redis-brain: Data for '' @ cfg_prefix cfg
                             @ '' brain retrieved from Redis''),
                   MergeData v, Emit ''connected'', SetAutoSave True], None))
          else
            ([LogInfo (''hubot-redis-brain: Initializing new data for '' @ cfg_prefix cfg
                        @ '' brain''),
              MergeData (JObj []), Emit ''connected'', SetAutoSave True], None))"

text \<open>The callback of \<open>client.auth\<close> (lines 75-82).\<close>

definition auth_callback :: "config \<Rightarrow> error_obj option \<Rightarrow> action list \<times> exn option" where
  "auth_callback cfg err =
     (case err of
        Some x \<Rightarrow> ([LogError ''hubot-redis-brain: Failed to authenticate to Redis''], None)
      | None \<Rightarrow>
          (LogInfo ''hubot-redis-brain: Successfully authenticated to Redis'' # getData cfg,
           None))"

text \<open>The client's \<open>error\<close> handler (lines 85-91).\<close>

definition on_error :: "error_obj \<Rightarrow> action list \<times> exn option" where
  "on_error err =
     (if regex_test ''ECONNREFUSED'' (message err) then ([], None)
      else ([LogError (stack err)], None))"

text \<open>The client's \<open>connect\<close> handler (lines 93-96).\<close>

definition on_connect :: "config \<Rightarrow> action list \<times> exn option" where
  "on_connect cfg =
     (LogDebug ''hubot-redis-brain: Successfully connected to Redis''
        # (if \<not> str_truthy (auth (cfg_info cfg)) then getData cfg else []),
      None)"

text \<open>The brain's \<open>save\<close> handler (lines 98-103).\<close>

definition on_save :: "platform \<Rightarrow> config \<Rightarrow> json option \<Rightarrow> action list \<times> exn option" where
  "on_save P cfg data =
     ([ClientSet (storage_key cfg)
         (json_stringify P (case data of
                              None \<Rightarrow> JObj []
                            | Some d \<Rightarrow> if js_truthy (Some d) then d else JObj []))],
      None)"

text \<open>The brain's \<open>close\<close> handler (line 105).\<close>

definition on_close :: "action list \<times> exn option" where
  "on_close = ([ClientQuit], None)"

section \<open>The event loop\<close>

text \<open>
  After startup the adapter only runs when the event loop calls one of its callbacks.
  The callback of \<open>client.auth\<close> exists only when \<open>info.auth\<close> is truthy (line 74).
\<close>

datatype event =
    AuthReply "error_obj option"
  | GetReply "error_obj option" "string option"
  | ClientError error_obj
  | ClientConnect
  | BrainSave "json option"
  | BrainClose

fun step :: "platform \<Rightarrow> config \<Rightarrow> event \<Rightarrow> action list \<times> exn option" where
  "step P cfg (AuthReply err) =
     (if str_truthy (auth (cfg_info cfg)) then auth_callback cfg err else ([], None))"
| "step P cfg (GetReply err reply) = getData_callback P cfg err reply"
| "step P cfg (ClientError err) = on_error err"
| "step P cfg ClientConnect = on_connect cfg"
| "step P cfg (BrainSave data) = on_save P cfg data"
| "step P cfg BrainClose = on_close"


text \<open>
  The Redis server as the adapter sees it: \<open>SET\<close> overwrites the value at a key, and the
  reply to \<open>GET\<close> is the value at the key, or null.
\<close>

type_synonym redis = "string \<rightharpoonup> string"

fun redis_exec :: "redis \<Rightarrow> action \<Rightarrow> redis" where
  "redis_exec db (ClientSet k v) = db(k \<mapsto> v)"
| "redis_exec db a = db"

definition redis_get_reply :: "redis \<Rightarrow> string \<Rightarrow> event" where
  "redis_get_reply db k = GetReply None (db k)"

section \<open>Vocabulary of the properties\<close>

text \<open>
  The priority order in the words of the documentation: the generic URL variables in
  their order, then the platform service variable, then the local default. A variable
  counts as set when its value is a non-empty string, which is what the conditions of
  \<open>getRedisEnv\<close> test.
\<close>

definition generic_vars :: "string list" where
  "generic_vars = [''REDISTOGO_URL'', ''REDISCLOUD_URL'', ''BOXEN_REDIS_URL'', ''REDIS_URL'']"

datatype url_source = FromVariable string | ServiceBinding | LocalDefault

definition priority_source :: "env \<Rightarrow> url_source" where
  "priority_source e =
     (case find (\<lambda>k. str_truthy (e k)) generic_vars of
        Some k \<Rightarrow> FromVariable k
      | None \<Rightarrow> if str_truthy (e ''CF_REDIS_SERVICE'') then ServiceBinding else LocalDefault)"

text \<open>Classes of calls.\<close>

definition is_client_call :: "action \<Rightarrow> bool" where
  "is_client_call a =
     (case a of
        CreateClientSocket p \<Rightarrow> True
      | CreateClient p h b \<Rightarrow> True
      | ClientAuth p \<Rightarrow> True
      | ClientGet k \<Rightarrow> True
      | ClientSet k v \<Rightarrow> True
      | ClientQuit \<Rightarrow> True
      | ClientOn n \<Rightarrow> True
      | _ \<Rightarrow> False)"

definition is_create :: "action \<Rightarrow> bool" where
  "is_create a =
     (case a of CreateClientSocket p \<Rightarrow> True | CreateClient p h b \<Rightarrow> True | _ \<Rightarrow> False)"

definition is_load :: "action \<Rightarrow> bool" where
  "is_load a = (case a of ClientGet k \<Rightarrow> True | _ \<Rightarrow> False)"

definition is_auth :: "action \<Rightarrow> bool" where
  "is_auth a = (case a of ClientAuth p \<Rightarrow> True | _ \<Rightarrow> False)"



subsection \<open>Auto-save and the host\<close>




subsection \<open>The service descriptor\<close>

text \<open>
  The three variables of the service-binding path hold \<open>text\<close>, \<open>svc\<close> and \<open>nm\<close>.
\<close>

definition cf_env :: "env \<Rightarrow> string \<Rightarrow> string \<Rightarrow> string \<Rightarrow> bool" where
  "cf_env e text svc nm =
     (e ''VCAP_SERVICES'' = Some text \<and> e ''CF_REDIS_SERVICE'' = Some svc
      \<and> e ''CF_REDIS_INSTANCE_NAME'' = Some nm)"

text \<open>An element of the service's array that is not null and whose name is not \<open>nm\<close>.\<close>

definition other_instance :: "string \<Rightarrow> json \<Rightarrow> bool" where
  "other_instance nm i = (i \<noteq> JNull \<and> get_prop (Some i) ''name'' \<noteq> Inr (Some (JStr nm)))"

subsection \<open>A runtime for the examples\<close>

text \<open>
  \<open>Url.parse\<close> returns null in every field for the empty string. The table below holds
  what Node's \<open>Url.parse\<close> returns for the URLs of the examples (a \<open>redis:\<close> URL with
  nothing after the host has a null path; a URL with an empty host has the empty
  hostname), and \<open>JSON.parse\<close> and \<open>JSON.stringify\<close> on the texts the examples use,
  among them a \<open>VCAP_SERVICES\<close> descriptor with two instances of one service and two
  texts that are not JSON, and the decimal digits of the number 6379. It is a table:
  outside its entries the functions return a fixed value, which no example reads.
\<close>

definition null_info :: url_info where
  "null_info =
     \<lparr>auth = None, hostname = None, port = None, pathname = None, path = None, query = None\<rparr>"

definition example_vcap :: string where
  \<open>example_vcap =
     ''{"p-redis":[{"name":"other","credentials":{"hostname":"redis.internal",''
     @ ''"host":"10.0.0.9","port":"6380","password":"x"}},''
     @ ''{"name":"hubot-prod","credentials":{"host":"10.0.0.5","port":6379,"password":"s3cret"}}]}''\<close>

definition example_services :: json where
  "example_services =
     JObj [(''p-redis'',
            JArr [JObj [(''name'', JStr ''other''),
                        (''credentials'',
                         JObj [(''hostname'', JStr ''redis.internal''),
                               (''host'', JStr ''10.0.0.9''), (''port'', JStr ''6380''),
                               (''password'', JStr ''x'')])],
                  JObj [(''name'', JStr ''hubot-prod''),
                        (''credentials'',
                         JObj [(''host'', JStr ''10.0.0.5''), (''port'', JNum 6379),
                               (''password'', JStr ''s3cret'')])]])]"

definition example_platform :: platform where
  \<open>example_platform =
     \<lparr>url_parse = (\<lambda>u.
        if u = ''redis://localhost:6379''
        then Inr (null_info\<lparr>hostname := Some ''localhost'', port := Some ''6379''\<rparr>)
        else if u = ''redis://h:6379/myprefix''
        then Inr (null_info\<lparr>hostname := Some ''h'', port := Some ''6379'',
                    pathname := Some ''/myprefix'', path := Some ''/myprefix''\<rparr>)
        else if u = ''redis:///tmp/redis.sock?myprefix''
        then Inr (null_info\<lparr>hostname := Some [], pathname := Some ''/tmp/redis.sock'',
                    path := Some ''/tmp/redis.sock?myprefix'', query := Some ''myprefix''\<rparr>)
        else if u = ''redis://:s3cret@10.0.0.5:6379/hubot-prod''
        then Inr (null_info\<lparr>auth := Some '':s3cret'', hostname := Some ''10.0.0.5'',
                    port := Some ''6379'', pathname := Some ''/hubot-prod'',
                    path := Some ''/hubot-prod''\<rparr>)
        else if u = ''redis://bot:pa:ss@h:6379''
        then Inr (null_info\<lparr>auth := Some ''bot:pa:ss'', hostname := Some ''h'',
                    port := Some ''6379''\<rparr>)
        else Inr null_info),
      json_parse = (\<lambda>s.
        if s = ''{"a":1}'' then Inr (JObj [(''a'', JNum 1)])
        else if s = example_vcap then Inr example_services
        else if s = ''{"p-redis":[{"name":"hubot-prod"}]}''
        then Inr (JObj [(''p-redis'', JArr [JObj [(''name'', JStr ''hubot-prod'')]])])
        else if s = ''not json'' then Inl SyntaxError
        else if s = ''p-redis'' then Inl SyntaxError
        else Inl SyntaxError),
      json_stringify = (\<lambda>j.
        if j = JObj [(''a'', JNum 1)] then ''{"a":1}''
        else if j = JObj [] then ''{}''
        else ''null''),
      number_to_string = (\<lambda>n. if n = 6379 then ''6379'' else ''0'')\<rparr>\<close>

text \<open>The closures of two startups: with no variable set, and with credentials in the URL.\<close>

definition default_cfg :: config where
  "default_cfg = \<lparr>cfg_prefix = ''hubot'',
                  cfg_info = null_info\<lparr>hostname := Some ''localhost'', port := Some ''6379''\<rparr>\<rparr>"

definition auth_cfg :: config where
  "auth_cfg = \<lparr>cfg_prefix = ''hubot-prod'',
               cfg_info = null_info\<lparr>auth := Some '':s3cret'', hostname := Some ''10.0.0.5'',
                            port := Some ''6379'', pathname := Some ''/hubot-prod'',
                            path := Some ''/hubot-prod''\<rparr>\<rparr>"

definition cf_example_env :: env where
  "cf_example_env =
     [''VCAP_SERVICES'' \<mapsto> example_vcap, ''CF_REDIS_SERVICE'' \<mapsto> ''p-redis'',
      ''CF_REDIS_INSTANCE_NAME'' \<mapsto> ''hubot-prod'']"

section \<open>Auxiliary facts\<close>

lemmas startup_defs =
  module_exports_def resolve_url_def getRedisEnv_def example_platform_def null_info_def
  create_client_def auth_step_def registrations_def str_or_undefined_def or_default_def
  auth_password_def nth_opt_def

lemma regex_test_iff: "regex_test pat s \<longleftrightarrow> (\<exists>a b. s = a @ pat @ b)"
proof (induction s)
  case Nil
  then show ?case by auto
next
  case (Cons c cs)
  show ?case
  proof
    assume "regex_test pat (c # cs)"
    then consider "prefix pat (c # cs)" | "regex_test pat cs" by auto
    then show "\<exists>a b. c # cs = a @ pat @ b"
    proof cases
      case 1
      then obtain b where "c # cs = pat @ b" by (auto simp: prefix_def)
      then have "c # cs = [] @ pat @ b" by simp
      then show ?thesis by blast
    next
      case 2
      then obtain a b where "cs = a @ pat @ b" using Cons.IH by auto
      then have "c # cs = (c # a) @ pat @ b" by simp
      then show ?thesis by blast
    qed
  next
    assume "\<exists>a b. c # cs = a @ pat @ b"
    then obtain a b where ab: "c # cs = a @ pat @ b" by blast
    show "regex_test pat (c # cs)"
    proof (cases a)
      case Nil
      with ab have "prefix pat (c # cs)" by (simp add: prefix_def)
      then show ?thesis by simp
    next
      case (Cons x a')
      with ab have "cs = a' @ pat @ b" by simp
      then have "regex_test pat cs" using Cons.IH by blast
      then show ?thesis by simp
    qed
  qed
qed

lemma split_on_no_sep: "c \<notin> set u \<Longrightarrow> split_on c u = [u]"
  by (induction u) auto

lemma split_on_first: "c \<notin> set u \<Longrightarrow> split_on c (u @ c # r) = u # split_on c r"
  by (induction u) auto

lemma resolve_url_priority:
  "snd (resolve_url P e) =
     (case priority_source e of
        FromVariable k \<Rightarrow> Inr (e k)
      | ServiceBinding \<Rightarrow> bind_exn (buildCloudFoundryURL P e) (\<lambda>u. Inr (Some u))
      | LocalDefault \<Rightarrow> Inr (Some ''redis://localhost:6379''))"
  by (simp add: resolve_url_def getRedisEnv_def priority_source_def generic_vars_def
      str_or_undefined_def Let_def)

lemma resolve_url_logs: "resolve_url P e = (logs, r) \<Longrightarrow> \<exists>m. logs = [LogInfo m]"
  by (auto simp: resolve_url_def Let_def split: if_splits)

text \<open>What a startup that returns has done.\<close>

lemma module_exports_success:
  assumes "module_exports P e = (tr, Inr cfg)"
  shows "\<exists>logs u. resolve_url P e = (logs, Inr (Some u))
           \<and> url_parse P u = Inr (cfg_info cfg)
           \<and> cfg_prefix cfg = snd (create_client (cfg_info cfg) e)
           \<and> tr = logs @ (if str_truthy (e ''REDIS_NO_CHECK'')
                           then [LogInfo ''Turning off redis ready checks''] else [])
                   @ [fst (create_client (cfg_info cfg) e), SetAutoSave False]
                   @ auth_step (cfg_info cfg) @ registrations"
  using assms
  by (auto simp: module_exports_def Let_def split: prod.splits sum.splits option.splits)

lemma is_create_logs: "resolve_url P e = (logs, r) \<Longrightarrow> filter is_create logs = []"
  by (auto simp: is_create_def dest: resolve_url_logs)

lemma is_create_auth_step [simp]: "filter is_create (auth_step info) = []"
  by (simp add: auth_step_def is_create_def split: option.splits)

lemma is_create_registrations [simp]: "filter is_create registrations = []"
  by (simp add: registrations_def is_create_def)

lemma is_create_create_client [simp]: "is_create (fst (create_client info e))"
  by (simp add: create_client_def is_create_def)

lemmas handler_defs =
  auth_callback_def getData_callback_def getData_def on_error_def on_connect_def
  on_save_def on_close_def storage_key_def

lemma startup_trace_auth:
  assumes "module_exports P e = (tr, Inr cfg)"
  shows "filter is_auth tr = auth_step (cfg_info cfg)" and "filter is_load tr = []"
proof -
  from module_exports_success [OF assms] obtain logs u where
    r: "resolve_url P e = (logs, Inr (Some u))" and
    tr: "tr = logs @ (if str_truthy (e ''REDIS_NO_CHECK'')
                      then [LogInfo ''Turning off redis ready checks''] else [])
              @ [fst (create_client (cfg_info cfg) e), SetAutoSave False]
              @ auth_step (cfg_info cfg) @ registrations"
    by blast
  from r obtain m where l: "logs = [LogInfo m]" by (auto dest: resolve_url_logs)
  show "filter is_auth tr = auth_step (cfg_info cfg)"
    unfolding tr l
    by (simp add: is_auth_def registrations_def create_client_def auth_step_def split: option.splits)
  show "filter is_load tr = []"
    unfolding tr l
    by (simp add: is_load_def registrations_def create_client_def auth_step_def split: option.splits)
qed










lemma default_startup:
  "module_exports example_platform Map.empty
     = ([LogInfo ''hubot-redis-brain: Using default redis on localhost:6379'',
         CreateClient (Some ''6379'') (Some ''localhost'') False, SetAutoSave False,
         ClientOn ''error'', ClientOn ''connect'', BrainOn ''save'', BrainOn ''close''],
        Inr default_cfg)"
  by (simp add: startup_defs default_cfg_def)

lemma load_events_auth:
  assumes "str_truthy (auth (cfg_info cfg))"
  shows "list_ex is_load (fst (step P cfg ev)) \<longleftrightarrow> ev = AuthReply None"
  using assms
  by (cases ev) (auto simp: handler_defs is_load_def split: option.splits sum.splits)

lemma load_events_connect:
  assumes "\<not> str_truthy (auth (cfg_info cfg))"
  shows "list_ex is_load (fst (step P cfg ev)) \<longleftrightarrow> ev = ClientConnect"
  using assms
  by (cases ev) (auto simp: handler_defs is_load_def split: option.splits sum.splits)

lemma auth_startup:
  "module_exports example_platform [''REDIS_URL'' \<mapsto> ''redis://:s3cret@10.0.0.5:6379/hubot-prod'']
     = ([LogInfo ''hubot-redis-brain: Discovered redis from REDIS_URL environment variable'',
         CreateClient (Some ''6379'') (Some ''10.0.0.5'') True, SetAutoSave False,
         ClientAuth (Some ''s3cret''),
         ClientOn ''error'', ClientOn ''connect'', BrainOn ''save'', BrainOn ''close''],
        Inr auth_cfg)"
  by (simp add: startup_defs auth_cfg_def)

lemma get_prop_nonnull: "i \<noteq> JNull \<Longrightarrow> \<exists>v. get_prop (Some i) k = Inr v"
  by (cases i) auto

lemma find_instance_skip:
  "list_all (other_instance nm) pre \<Longrightarrow>
     find_instance (Some nm) (pre @ rest) = find_instance (Some nm) rest"
proof (induction pre)
  case Nil
  then show ?case by simp
next
  case (Cons i pre)
  then have "i \<noteq> JNull" and ne: "get_prop (Some i) ''name'' \<noteq> Inr (Some (JStr nm))"
    by (simp_all add: other_instance_def)
  then obtain v where v: "get_prop (Some i) ''name'' = Inr v"
    using get_prop_nonnull by blast
  with ne have "\<not> strict_eq v (Some nm)" by (auto simp: strict_eq_def)
  with v Cons show ?case by (simp add: bind_exn_def)
qed

lemma find_instance_hit:
  "map_of inst ''name'' = Some (JStr nm) \<Longrightarrow>
     find_instance (Some nm) (JObj inst # post) = Inr (Some (JObj inst))"
  by (simp add: bind_exn_def strict_eq_def)

lemma find_instance_miss:
  "list_all (other_instance nm) insts \<Longrightarrow> find_instance (Some nm) insts = Inr None"
  using find_instance_skip [of nm insts "[]"] by simp

lemma parse_services_ok:
  "e ''VCAP_SERVICES'' = Some text \<Longrightarrow> json_parse P text = Inr v \<Longrightarrow> parse_services P e = Some v"
  by (simp add: parse_services_def str_or_undefined_def)

lemma build_url_convert:
  assumes "cf_env e text svc nm" "json_parse P text = Inr (JObj services)"
    "map_of services svc = Some (JArr (pre @ JObj inst # post))"
    "list_all (other_instance nm) pre"
    "map_of inst ''name'' = Some (JStr nm)" "map_of inst ''credentials'' = Some (JObj creds)"
  shows "buildCloudFoundryURL P e
     = bind_exn (to_string_opt (number_to_string P) (map_of creds ''password''))
         (\<lambda>p. bind_exn (to_string_opt (number_to_string P)
                          (case map_of creds ''hostname'' of
                             None \<Rightarrow> map_of creds ''host'' | Some v \<Rightarrow> Some v))
         (\<lambda>h. bind_exn (to_string_opt (number_to_string P) (map_of creds ''port''))
         (\<lambda>q. Inr (''redis://:'' @ p @ ''@'' @ h @ '':'' @ q @ ''/'' @ nm))))"
proof -
  from assms(1) have env: "e ''VCAP_SERVICES'' = Some text" "e ''CF_REDIS_SERVICE'' = Some svc"
    "e ''CF_REDIS_INSTANCE_NAME'' = Some nm"
    by (simp_all add: cf_env_def)
  have ps: "parse_services P e = Some (JObj services)"
    using env(1) assms(2) by (rule parse_services_ok)
  have fi: "find_instance (Some nm) (pre @ JObj inst # post) = Inr (Some (JObj inst))"
    using find_instance_hit [OF assms(5), of post]
    by (simp only: find_instance_skip [OF assms(4)])
  show ?thesis
    by (cases "map_of creds ''hostname''")
      (simp_all add: buildCloudFoundryURL_def ps env assms(3,6) fi bind_exn_def
        str_or_undefined_def cong: sum.case_cong)
qed

lemma build_url:
  assumes "cf_env e text svc nm" "json_parse P text = Inr (JObj services)"
    "map_of services svc = Some (JArr (pre @ JObj inst # post))"
    "list_all (other_instance nm) pre"
    "map_of inst ''name'' = Some (JStr nm)" "map_of inst ''credentials'' = Some (JObj creds)"
    "map_of creds ''password'' = Some (JStr pw)"
    "map_of creds ''hostname'' = Some (JStr h)
     \<or> map_of creds ''hostname'' = None \<and> map_of creds ''host'' = Some (JStr h)"
    "map_of creds ''port'' = Some (JStr p)
     \<or> (\<exists>n. map_of creds ''port'' = Some (JNum n) \<and> p = number_to_string P n)"
  shows "buildCloudFoundryURL P e
     = Inr (''redis://:'' @ pw @ ''@'' @ h @ '':'' @ p @ ''/'' @ nm)"
proof -
  have pwd: "to_string_opt (number_to_string P) (map_of creds ''password'') = Inr pw"
    using assms(7) by (simp add: to_string_opt_def)
  have hst: "to_string_opt (number_to_string P)
               (case map_of creds ''hostname'' of
                  None \<Rightarrow> map_of creds ''host'' | Some v \<Rightarrow> Some v) = Inr h"
    using assms(8) by (auto simp: to_string_opt_def)
  have prt: "to_string_opt (number_to_string P) (map_of creds ''port'') = Inr p"
    using assms(9) by (auto simp: to_string_opt_def)
  show ?thesis
    by (simp add: build_url_convert [OF assms(1-6)] pwd hst prt bind_exn_def)
qed

lemma build_no_service:
  assumes "cf_env e text svc nm" "json_parse P text = Inr (JObj services)"
    "map_of services svc = None"
  shows "buildCloudFoundryURL P e = Inl TypeError"
proof -
  from assms(1) have env: "e ''VCAP_SERVICES'' = Some text" "e ''CF_REDIS_SERVICE'' = Some svc"
    by (simp_all add: cf_env_def)
  have ps: "parse_services P e = Some (JObj services)"
    using env(1) assms(2) by (rule parse_services_ok)
  show ?thesis
    by (simp add: buildCloudFoundryURL_def ps env assms(3) bind_exn_def str_or_undefined_def)
qed

lemma build_no_instance:
  assumes "cf_env e text svc nm" "json_parse P text = Inr (JObj services)"
    "map_of services svc = Some (JArr insts)" "list_all (other_instance nm) insts"
  shows "buildCloudFoundryURL P e = Inl TypeError"
proof -
  from assms(1) have env: "e ''VCAP_SERVICES'' = Some text" "e ''CF_REDIS_SERVICE'' = Some svc"
    "e ''CF_REDIS_INSTANCE_NAME'' = Some nm"
    by (simp_all add: cf_env_def)
  have ps: "parse_services P e = Some (JObj services)"
    using env(1) assms(2) by (rule parse_services_ok)
  have fi: "find_instance (Some nm) insts = Inr None"
    using assms(4) by (rule find_instance_miss)
  show ?thesis
    by (simp add: buildCloudFoundryURL_def ps env assms(3) fi bind_exn_def str_or_undefined_def)
qed

lemma build_no_credentials:
  assumes "cf_env e text svc nm" "json_parse P text = Inr (JObj services)"
    "map_of services svc = Some (JArr (pre @ JObj inst # post))"
    "list_all (other_instance nm) pre"
    "map_of inst ''name'' = Some (JStr nm)" "map_of inst ''credentials'' = None"
  shows "buildCloudFoundryURL P e = Inl TypeError"
proof -
  from assms(1) have env: "e ''VCAP_SERVICES'' = Some text" "e ''CF_REDIS_SERVICE'' = Some svc"
    "e ''CF_REDIS_INSTANCE_NAME'' = Some nm"
    by (simp_all add: cf_env_def)
  have ps: "parse_services P e = Some (JObj services)"
    using env(1) assms(2) by (rule parse_services_ok)
  have fi: "find_instance (Some nm) (pre @ JObj inst # post) = Inr (Some (JObj inst))"
    using find_instance_hit [OF assms(5), of post]
    by (simp only: find_instance_skip [OF assms(4)])
  show ?thesis
    by (simp add: buildCloudFoundryURL_def ps env assms(3,6) fi bind_exn_def str_or_undefined_def)
qed

lemma build_failure_propagates:
  assumes "getRedisEnv e = Some ''CF_REDIS_INSTANCE_NAME''" "buildCloudFoundryURL P e = Inl x"
  shows "module_exports P e
     = ([LogInfo (''hubot-redis-brain: Discovered redis from CF_REDIS_INSTANCE_NAME''
                  @ '' environment variable. Pulling from VCAP'')], Inl x)"
  using assms
  by (simp add: module_exports_def resolve_url_def bind_exn_def str_or_undefined_def)

lemma cf_example_url:
  "buildCloudFoundryURL example_platform cf_example_env
     = Inr ''redis://:s3cret@10.0.0.5:6379/hubot-prod''"
  by (simp add: buildCloudFoundryURL_def parse_services_def cf_example_env_def
      example_platform_def example_services_def example_vcap_def str_or_undefined_def bind_exn_def
      strict_eq_def to_string_opt_def)

section \<open>Connection-target resolution: properties\<close>

text \<open>
  Claim C5. The source of the URL follows the priority order: the first generic URL
  variable that is set (\<open>REDISTOGO_URL\<close>, \<open>REDISCLOUD_URL\<close>, \<open>BOXEN_REDIS_URL\<close>,
  \<open>REDIS_URL\<close>) gives the URL; if none is set and \<open>CF_REDIS_SERVICE\<close> is, the URL is the
  one \<open>buildCloudFoundryURL\<close> builds; otherwise it is \<open>redis://localhost:6379\<close>. When a
  generic variable and \<open>CF_REDIS_SERVICE\<close> are both set, the URL is the value of a generic
  variable.
\<close>

theorem url_priority:
  "snd (resolve_url P e) =
     (case priority_source e of
        FromVariable k \<Rightarrow> Inr (e k)
      | ServiceBinding \<Rightarrow> bind_exn (buildCloudFoundryURL P e) (\<lambda>u. Inr (Some u))
      | LocalDefault \<Rightarrow> Inr (Some ''redis://localhost:6379''))
   \<and> (\<forall>k \<in> set generic_vars. str_truthy (e k) \<and> str_truthy (e ''CF_REDIS_SERVICE'') \<longrightarrow>
        (\<exists>k' \<in> set generic_vars. str_truthy (e k') \<and> snd (resolve_url P e) = Inr (e k')))"
proof (intro conjI ballI impI)
  show "snd (resolve_url P e) =
     (case priority_source e of
        FromVariable k \<Rightarrow> Inr (e k)
      | ServiceBinding \<Rightarrow> bind_exn (buildCloudFoundryURL P e) (\<lambda>u. Inr (Some u))
      | LocalDefault \<Rightarrow> Inr (Some ''redis://localhost:6379''))"
    by (rule resolve_url_priority)
next
  fix k assume k: "k \<in> set generic_vars"
    and t: "str_truthy (e k) \<and> str_truthy (e ''CF_REDIS_SERVICE'')"
  from k t obtain k' where f: "find (\<lambda>k. str_truthy (e k)) generic_vars = Some k'"
    by (cases "find (\<lambda>k. str_truthy (e k)) generic_vars") (auto simp: find_None_iff)
  then have "k' \<in> set generic_vars" "str_truthy (e k')"
    by (auto simp: find_Some_iff)
  moreover from f have "snd (resolve_url P e) = Inr (e k')"
    by (simp add: resolve_url_priority priority_source_def)
  ultimately show "\<exists>k' \<in> set generic_vars. str_truthy (e k') \<and> snd (resolve_url P e) = Inr (e k')"
    by blast
qed

theorem url_priority_witness:
  "str_truthy ([''REDIS_URL'' \<mapsto> ''redis://h:6379/myprefix'', ''CF_REDIS_SERVICE'' \<mapsto> ''p-redis'']
                 ''REDIS_URL'')
   \<and> priority_source [''REDIS_URL'' \<mapsto> ''redis://h:6379/myprefix'', ''CF_REDIS_SERVICE'' \<mapsto> ''p-redis'']
        = FromVariable ''REDIS_URL''
   \<and> snd (resolve_url example_platform
        [''REDIS_URL'' \<mapsto> ''redis://h:6379/myprefix'', ''CF_REDIS_SERVICE'' \<mapsto> ''p-redis''])
        = Inr (Some ''redis://h:6379/myprefix'')
   \<and> priority_source cf_example_env = ServiceBinding
   \<and> snd (resolve_url example_platform cf_example_env)
        = Inr (Some ''redis://:s3cret@10.0.0.5:6379/hubot-prod'')
   \<and> priority_source Map.empty = LocalDefault
   \<and> snd (resolve_url example_platform Map.empty) = Inr (Some ''redis://localhost:6379'')"
proof -
  have p: "priority_source cf_example_env = ServiceBinding"
    by (simp add: priority_source_def generic_vars_def cf_example_env_def)
  have "snd (resolve_url example_platform cf_example_env)
        = Inr (Some ''redis://:s3cret@10.0.0.5:6379/hubot-prod'')"
    using url_priority [of example_platform cf_example_env]
    by (simp add: p cf_example_url bind_exn_def)
  then show ?thesis
    using p url_priority [of example_platform
      "[''REDIS_URL'' \<mapsto> ''redis://h:6379/myprefix'', ''CF_REDIS_SERVICE'' \<mapsto> ''p-redis'']"]
    url_priority [of example_platform Map.empty]
    by (simp add: priority_source_def generic_vars_def)
qed

section \<open>Connection errors: properties\<close>

text \<open>
  Claim C8. When the message of a connection error contains \<open>ECONNREFUSED\<close> the
  \<open>error\<close> handler does nothing; for every other error it logs the stack at error
  level. In both cases the handler returns without an exception and makes no call on the
  client.
\<close>

theorem connection_error_reporting:
  "((\<exists>a b. message err = a @ ''ECONNREFUSED'' @ b) \<longrightarrow> step P cfg (ClientError err) = ([], None))
   \<and> ((\<nexists>a b. message err = a @ ''ECONNREFUSED'' @ b) \<longrightarrow>
        step P cfg (ClientError err) = ([LogError (stack err)], None))
   \<and> snd (step P cfg (ClientError err)) = None
   \<and> list_all (\<lambda>a. \<not> is_client_call a) (fst (step P cfg (ClientError err)))"
  by (simp add: on_error_def regex_test_iff is_client_call_def)

theorem connection_error_reporting_witness:
  "step example_platform \<lparr>cfg_prefix = ''hubot'', cfg_info = null_info\<rparr>
     (ClientError \<lparr>message = ''connect ECONNREFUSED 127.0.0.1:6379'',
                   stack = ''Error: connect ECONNREFUSED 127.0.0.1:6379''\<rparr>) = ([], None)
   \<and> step example_platform \<lparr>cfg_prefix = ''hubot'', cfg_info = null_info\<rparr>
     (ClientError \<lparr>message = ''Ready check failed'',
                   stack = ''Error: Ready check failed''\<rparr>)
       = ([LogError ''Error: Ready check failed''], None)"
proof -
  let ?e1 = "\<lparr>message = ''connect ECONNREFUSED 127.0.0.1:6379'',
              stack = ''Error: connect ECONNREFUSED 127.0.0.1:6379''\<rparr>"
  let ?e2 = "\<lparr>message = ''Ready check failed'', stack = ''Error: Ready check failed''\<rparr>"
  let ?cfg = "\<lparr>cfg_prefix = ''hubot'', cfg_info = null_info\<rparr>"
  have "message ?e1 = ''connect '' @ ''ECONNREFUSED'' @ '' 127.0.0.1:6379''" by simp
  then have h1: "\<exists>a b. message ?e1 = a @ ''ECONNREFUSED'' @ b" by blast
  have "\<not> regex_test ''ECONNREFUSED'' (message ?e2)" by simp
  then have h2: "\<nexists>a b. message ?e2 = a @ ''ECONNREFUSED'' @ b"
    by (simp only: regex_test_iff not_False_eq_True)
  from h1 connection_error_reporting [of ?e1 example_platform ?cfg]
  have r1: "step example_platform ?cfg (ClientError ?e1) = ([], None)"
    by blast
  from h2 connection_error_reporting [of ?e2 example_platform ?cfg]
  have r2: "step example_platform ?cfg (ClientError ?e2) = ([LogError (stack ?e2)], None)"
    by blast
  show ?thesis using r1 r2 by simp
qed

section \<open>Client construction and prefix: properties\<close>

text \<open>
  Claim C9. When the parsed hostname is the empty string the client is created from the
  socket path (\<open>info.pathname\<close>); otherwise it is created from port and hostname, and
  \<open>{no_ready_check: true}\<close> is passed exactly when \<open>info.auth\<close> is set or
  \<open>REDIS_NO_CHECK\<close> is set. A startup that returns has created exactly this one
  client.
\<close>

theorem client_construction:
  "(hostname info = Some [] \<longrightarrow> fst (create_client info e) = CreateClientSocket (pathname info))
   \<and> (hostname info \<noteq> Some [] \<longrightarrow>
        fst (create_client info e)
          = CreateClient (port info) (hostname info)
              (str_truthy (auth info) \<or> str_truthy (e ''REDIS_NO_CHECK'')))
   \<and> (\<forall>tr cfg. module_exports P e = (tr, Inr cfg) \<longrightarrow>
          filter is_create tr = [fst (create_client (cfg_info cfg) e)])"
proof (intro conjI allI impI)
  fix tr cfg
  assume m: "module_exports P e = (tr, Inr cfg)"
  from module_exports_success [OF m] obtain logs u where
    r: "resolve_url P e = (logs, Inr (Some u))" and
    tr: "tr = logs @ (if str_truthy (e ''REDIS_NO_CHECK'')
                      then [LogInfo ''Turning off redis ready checks''] else [])
              @ [fst (create_client (cfg_info cfg) e), SetAutoSave False]
              @ auth_step (cfg_info cfg) @ registrations"
    by blast
  have "filter is_create logs = []" using r by (rule is_create_logs)
  then show "filter is_create tr = [fst (create_client (cfg_info cfg) e)]"
    unfolding tr by (simp add: is_create_def[of "LogInfo _"] is_create_def[of "SetAutoSave _"])
qed (simp_all add: create_client_def)

theorem client_construction_witness:
  "fst (create_client
          (null_info\<lparr>hostname := Some [], pathname := Some ''/tmp/redis.sock'',
                      path := Some ''/tmp/redis.sock?myprefix'', query := Some ''myprefix''\<rparr>)
          Map.empty)
     = CreateClientSocket (Some ''/tmp/redis.sock'')
   \<and> fst (create_client (null_info\<lparr>hostname := Some ''h'', port := Some ''6379''\<rparr>) Map.empty)
     = CreateClient (Some ''6379'') (Some ''h'') False
   \<and> fst (create_client (null_info\<lparr>hostname := Some ''h'', port := Some ''6379''\<rparr>)
            [''REDIS_NO_CHECK'' \<mapsto> ''1''])
     = CreateClient (Some ''6379'') (Some ''h'') True
   \<and> fst (create_client
            (null_info\<lparr>auth := Some '':s3cret'', hostname := Some ''10.0.0.5'',
                        port := Some ''6379''\<rparr>) Map.empty)
     = CreateClient (Some ''6379'') (Some ''10.0.0.5'') True
   \<and> filter is_create (fst (module_exports example_platform
            [''REDIS_URL'' \<mapsto> ''redis:///tmp/redis.sock?myprefix'']))
     = [CreateClientSocket (Some ''/tmp/redis.sock'')]"
proof -
  let ?sock = "null_info\<lparr>hostname := Some [], pathname := Some ''/tmp/redis.sock'',
                    path := Some ''/tmp/redis.sock?myprefix'', query := Some ''myprefix''\<rparr>"
  let ?h = "null_info\<lparr>hostname := Some ''h'', port := Some ''6379''\<rparr>"
  let ?a = "null_info\<lparr>auth := Some '':s3cret'', hostname := Some ''10.0.0.5'',
                    port := Some ''6379''\<rparr>"
  let ?e1 = "[''REDIS_URL'' \<mapsto> ''redis:///tmp/redis.sock?myprefix'']"
  have c1: "fst (create_client ?sock Map.empty) = CreateClientSocket (Some ''/tmp/redis.sock'')"
    using client_construction [of ?sock Map.empty example_platform] by (simp add: null_info_def)
  have c2: "fst (create_client ?h Map.empty) = CreateClient (Some ''6379'') (Some ''h'') False"
    using client_construction [of ?h Map.empty example_platform] by (simp add: null_info_def)
  have c3: "fst (create_client ?h [''REDIS_NO_CHECK'' \<mapsto> ''1''])
              = CreateClient (Some ''6379'') (Some ''h'') True"
    using client_construction [of ?h "[''REDIS_NO_CHECK'' \<mapsto> ''1'']" example_platform]
    by (simp add: null_info_def)
  have c4: "fst (create_client ?a Map.empty) = CreateClient (Some ''6379'') (Some ''10.0.0.5'') True"
    using client_construction [of ?a Map.empty example_platform] by (simp add: null_info_def)
  have m: "module_exports example_platform ?e1
             = (fst (module_exports example_platform ?e1),
                Inr \<lparr>cfg_prefix = ''myprefix'', cfg_info = ?sock\<rparr>)"
    by (simp add: startup_defs)
  have "filter is_create (fst (module_exports example_platform ?e1))
          = [fst (create_client ?sock ?e1)]"
    using client_construction [of ?sock ?e1 example_platform] m by fastforce
  also have "\<dots> = [CreateClientSocket (Some ''/tmp/redis.sock'')]"
    by (simp add: create_client_def null_info_def)
  finally show ?thesis using c1 c2 c3 c4 by simp
qed



section \<open>Authentication and load: properties\<close>

text \<open>
  Claim C10. The password sent by the authenticate step is \<open>info.auth.split(':')[1]\<close>:
  the part of the auth portion between its first and its second colon. So a password
  that contains a colon is cut at that colon, and for an auth portion with no colon the
  step is called with undefined.
\<close>

theorem auth_password_truncation:
  "(\<forall>tr cfg a. module_exports P e = (tr, Inr cfg) \<and> auth (cfg_info cfg) = Some a \<and> a \<noteq> [] \<longrightarrow>
       filter is_auth tr = [ClientAuth (nth_opt (split_on CHR '':'' a) 1)])
   \<and> (CHR '':'' \<notin> set user \<and> CHR '':'' \<notin> set p1 \<longrightarrow>
        nth_opt (split_on CHR '':'' (user @ '':'' @ p1 @ '':'' @ p2)) 1 = Some p1)
   \<and> (CHR '':'' \<notin> set user \<and> CHR '':'' \<notin> set pw \<longrightarrow>
        nth_opt (split_on CHR '':'' (user @ '':'' @ pw)) 1 = Some pw)
   \<and> (CHR '':'' \<notin> set user \<longrightarrow> nth_opt (split_on CHR '':'' user) 1 = None)"
proof (intro conjI allI impI)
  fix tr cfg a
  assume h: "module_exports P e = (tr, Inr cfg) \<and> auth (cfg_info cfg) = Some a \<and> a \<noteq> []"
  then have "filter is_auth tr = auth_step (cfg_info cfg)"
    by (blast dest: startup_trace_auth(1))
  with h show "filter is_auth tr = [ClientAuth (nth_opt (split_on CHR '':'' a) 1)]"
    by (simp add: auth_step_def auth_password_def)
next
  assume "CHR '':'' \<notin> set user \<and> CHR '':'' \<notin> set p1"
  then show "nth_opt (split_on CHR '':'' (user @ '':'' @ p1 @ '':'' @ p2)) 1 = Some p1"
    by (simp add: nth_opt_def split_on_first)
next
  assume "CHR '':'' \<notin> set user \<and> CHR '':'' \<notin> set pw"
  then show "nth_opt (split_on CHR '':'' (user @ '':'' @ pw)) 1 = Some pw"
    by (simp add: nth_opt_def split_on_first split_on_no_sep)
next
  assume "CHR '':'' \<notin> set user"
  then show "nth_opt (split_on CHR '':'' user) 1 = None"
    by (simp add: nth_opt_def split_on_no_sep)
qed

theorem auth_password_truncation_witness:
  "filter is_auth (fst (module_exports example_platform [''REDIS_URL'' \<mapsto> ''redis://bot:pa:ss@h:6379'']))
     = [ClientAuth (Some ''pa'')]
   \<and> nth_opt (split_on CHR '':'' ''bot:pa:ss'') 1 = Some ''pa''
   \<and> nth_opt (split_on CHR '':'' ''bot:secret'') 1 = Some ''secret''
   \<and> nth_opt (split_on CHR '':'' ''bot'') 1 = None"
proof -
  let ?e = "[''REDIS_URL'' \<mapsto> ''redis://bot:pa:ss@h:6379'']"
  let ?i = "null_info\<lparr>auth := Some ''bot:pa:ss'', hostname := Some ''h'', port := Some ''6379''\<rparr>"
  have "snd (module_exports example_platform ?e) = Inr \<lparr>cfg_prefix = ''hubot'', cfg_info = ?i\<rparr>"
    by (simp add: startup_defs)
  then have m: "module_exports example_platform ?e
      = (fst (module_exports example_platform ?e), Inr \<lparr>cfg_prefix = ''hubot'', cfg_info = ?i\<rparr>)"
    by (metis prod.collapse)
  have a: "auth (cfg_info \<lparr>cfg_prefix = ''hubot'', cfg_info = ?i\<rparr>) = Some ''bot:pa:ss''"
    by (simp add: null_info_def)
  have w1: "filter is_auth (fst (module_exports example_platform ?e))
              = [ClientAuth (nth_opt (split_on CHR '':'' ''bot:pa:ss'') 1)]"
    using auth_password_truncation [of example_platform ?e] m a by blast
  have w2: "nth_opt (split_on CHR '':'' (''bot'' @ '':'' @ ''pa'' @ '':'' @ ''ss'')) 1 = Some ''pa''"
    using auth_password_truncation [of example_platform ?e "''bot''" "''pa''" "''ss''"]
    by simp
  have w3: "nth_opt (split_on CHR '':'' (''bot'' @ '':'' @ ''secret'')) 1 = Some ''secret''"
    using auth_password_truncation [of example_platform ?e "''bot''" _ _ "''secret''"]
    by simp
  have w4: "nth_opt (split_on CHR '':'' ''bot'') 1 = None"
    using auth_password_truncation [of example_platform ?e "''bot''"]
    by simp
  show ?thesis using w1 w2 w3 w4 by simp
qed

text \<open>
  Order of authentication and load. Startup never loads. When the URL has an auth
  portion, startup calls \<open>client.auth\<close> once, with \<open>info.auth.split(':')[1]\<close>, which is
  the password when neither user nor password holds a colon; the callback loads when
  authentication succeeded and logs an error, without loading, when it failed; no other
  event loads. When the URL has no auth portion there is no authenticate step, and the
  load is made by the \<open>connect\<close> handler and by no other event.
\<close>

theorem authenticate_then_load:
  "\<forall>tr cfg. module_exports P e = (tr, Inr cfg) \<longrightarrow>
     filter is_load tr = []
     \<and> (str_truthy (auth (cfg_info cfg)) \<longrightarrow>
          filter is_auth tr = [ClientAuth (auth_password (the (auth (cfg_info cfg))))]
          \<and> (\<forall>user pw. auth (cfg_info cfg) = Some (user @ '':'' @ pw)
                \<and> CHR '':'' \<notin> set user \<and> CHR '':'' \<notin> set pw \<longrightarrow>
                filter is_auth tr = [ClientAuth (Some pw)])
          \<and> step P cfg (AuthReply None)
              = ([LogInfo ''hubot-redis-brain: Successfully authenticated to Redis'',
                  ClientGet (cfg_prefix cfg @ '':storage'')], None)
          \<and> (\<forall>x. step P cfg (AuthReply (Some x))
                = ([LogError ''hubot-redis-brain: Failed to authenticate to Redis''], None))
          \<and> (\<forall>ev. list_ex is_load (fst (step P cfg ev)) \<longleftrightarrow> ev = AuthReply None))
     \<and> (\<not> str_truthy (auth (cfg_info cfg)) \<longrightarrow>
          filter is_auth tr = []
          \<and> step P cfg ClientConnect
              = ([LogDebug ''hubot-redis-brain: Successfully connected to Redis'',
                  ClientGet (cfg_prefix cfg @ '':storage'')], None)
          \<and> (\<forall>ev. list_ex is_load (fst (step P cfg ev)) \<longleftrightarrow> ev = ClientConnect))"
proof (intro allI impI conjI)
  fix tr cfg
  assume m: "module_exports P e = (tr, Inr cfg)"
  show "filter is_load tr = []" using m by (rule startup_trace_auth(2))
  have fa: "filter is_auth tr = auth_step (cfg_info cfg)" using m by (rule startup_trace_auth(1))
  {
    assume t: "str_truthy (auth (cfg_info cfg))"
    then obtain a where a: "auth (cfg_info cfg) = Some a" "a \<noteq> []"
      by (cases "auth (cfg_info cfg)") auto
    show "filter is_auth tr = [ClientAuth (auth_password (the (auth (cfg_info cfg))))]"
      using fa a by (simp add: auth_step_def)
    show "step P cfg (AuthReply None)
              = ([LogInfo ''hubot-redis-brain: Successfully authenticated to Redis'',
                  ClientGet (cfg_prefix cfg @ '':storage'')], None)"
      using t by (simp add: handler_defs)
    show "\<And>x. step P cfg (AuthReply (Some x))
                = ([LogError ''hubot-redis-brain: Failed to authenticate to Redis''], None)"
      using t by (simp add: handler_defs)
    show "\<And>ev. list_ex is_load (fst (step P cfg ev)) \<longleftrightarrow> ev = AuthReply None"
      using t by (rule load_events_auth)
    fix user pw
    assume u: "auth (cfg_info cfg) = Some (user @ '':'' @ pw)
                \<and> CHR '':'' \<notin> set user \<and> CHR '':'' \<notin> set pw"
    then have "auth_password (user @ '':'' @ pw) = Some pw"
      by (simp add: auth_password_def nth_opt_def split_on_first split_on_no_sep)
    with u fa show "filter is_auth tr = [ClientAuth (Some pw)]"
      by (simp add: auth_step_def)
  }
  {
    assume t: "\<not> str_truthy (auth (cfg_info cfg))"
    show "filter is_auth tr = []"
      using fa t by (cases "auth (cfg_info cfg)") (auto simp: auth_step_def)
    show "step P cfg ClientConnect
              = ([LogDebug ''hubot-redis-brain: Successfully connected to Redis'',
                  ClientGet (cfg_prefix cfg @ '':storage'')], None)"
      using t by (simp add: handler_defs)
    show "\<And>ev. list_ex is_load (fst (step P cfg ev)) \<longleftrightarrow> ev = ClientConnect"
      using t by (rule load_events_connect)
  }
qed

theorem authenticate_then_load_witness:
  "filter is_auth (fst (module_exports example_platform
        [''REDIS_URL'' \<mapsto> ''redis://:s3cret@10.0.0.5:6379/hubot-prod'']))
     = [ClientAuth (Some ''s3cret'')]
   \<and> step example_platform auth_cfg (AuthReply None)
     = ([LogInfo ''hubot-redis-brain: Successfully authenticated to Redis'',
         ClientGet ''hubot-prod:storage''], None)
   \<and> step example_platform auth_cfg
        (AuthReply (Some \<lparr>message = ''ERR invalid password'', stack = ''ReplyError''\<rparr>))
     = ([LogError ''hubot-redis-brain: Failed to authenticate to Redis''], None)
   \<and> \<not> list_ex is_load (fst (step example_platform auth_cfg ClientConnect))
   \<and> filter is_auth (fst (module_exports example_platform Map.empty)) = []
   \<and> step example_platform default_cfg ClientConnect
     = ([LogDebug ''hubot-redis-brain: Successfully connected to Redis'',
         ClientGet ''hubot:storage''], None)"
proof -
  let ?e = "[''REDIS_URL'' \<mapsto> ''redis://:s3cret@10.0.0.5:6379/hubot-prod'']"
  have t: "str_truthy (auth (cfg_info auth_cfg))"
    and a: "auth (cfg_info auth_cfg) = Some ([] @ '':'' @ ''s3cret'')"
    and c: "CHR '':'' \<notin> set [] \<and> CHR '':'' \<notin> set ''s3cret''"
    and p: "cfg_prefix auth_cfg = ''hubot-prod''"
    by (simp_all add: auth_cfg_def null_info_def)
  have n: "\<not> str_truthy (auth (cfg_info default_cfg))" and q: "cfg_prefix default_cfg = ''hubot''"
    by (simp_all add: default_cfg_def null_info_def)
  from authenticate_then_load [of example_platform ?e] auth_startup t
  have w: "filter is_auth (fst (module_exports example_platform ?e))
             = [ClientAuth (auth_password (the (auth (cfg_info auth_cfg))))]"
     "step example_platform auth_cfg (AuthReply None)
              = ([LogInfo ''hubot-redis-brain: Successfully authenticated to Redis'',
                  ClientGet (cfg_prefix auth_cfg @ '':storage'')], None)"
     "\<forall>x. step example_platform auth_cfg (AuthReply (Some x))
                = ([LogError ''hubot-redis-brain: Failed to authenticate to Redis''], None)"
     "\<forall>ev. list_ex is_load (fst (step example_platform auth_cfg ev)) \<longleftrightarrow> ev = AuthReply None"
    by (simp_all only: fst_conv) blast+
  from authenticate_then_load [of example_platform Map.empty] default_startup n
  have v: "filter is_auth (fst (module_exports example_platform Map.empty)) = []"
     "step example_platform default_cfg ClientConnect
              = ([LogDebug ''hubot-redis-brain: Successfully connected to Redis'',
                  ClientGet (cfg_prefix default_cfg @ '':storage'')], None)"
    by (simp_all only: fst_conv) blast+
  have pw: "auth_password (the (auth (cfg_info auth_cfg))) = Some ''s3cret''"
    by (simp add: auth_cfg_def null_info_def auth_password_def nth_opt_def)
  have nl: "\<not> list_ex is_load (fst (step example_platform auth_cfg ClientConnect))"
    using w(4) by (auto simp del: step.simps)
  show ?thesis
    using w(1-3) v pw p q nl by (simp del: step.simps)
qed

text \<open>
  Claim C4 says that the authenticate step uses the password portion of the credentials.
  For the URL \<open>redis://bot:pa:ss@h:6379\<close>, whose auth portion is \<open>bot:pa:ss\<close> and whose
  password is \<open>pa:ss\<close>, startup calls \<open>client.auth\<close> with \<open>pa\<close>.
\<close>

theorem auth_password_colon_cut:
  "module_exports example_platform [''REDIS_URL'' \<mapsto> ''redis://bot:pa:ss@h:6379'']
     = ([LogInfo ''hubot-redis-brain: Discovered redis from REDIS_URL environment variable'',
         CreateClient (Some ''6379'') (Some ''h'') True, SetAutoSave False,
         ClientAuth (Some ''pa''),
         ClientOn ''error'', ClientOn ''connect'', BrainOn ''save'', BrainOn ''close''],
        Inr \<lparr>cfg_prefix = ''hubot'',
             cfg_info = null_info\<lparr>auth := Some ''bot:pa:ss'', hostname := Some ''h'',
                          port := Some ''6379''\<rparr>\<rparr>)"
  by (simp add: startup_defs)

text \<open>
  Claim C2, as the code has it. \<open>getData\<close> reads the key \<open>prefix:storage\<close>. When the
  reply is a non-empty value that \<open>JSON.parse\<close> accepts, the callback merges the parsed
  value, emits \<open>connected\<close> and then enables auto-save. When \<open>JSON.parse\<close> rejects the
  reply, its exception leaves the callback after the log line, and nothing is merged,
  emitted or enabled. When there is no stored value (the reply is null or empty) the
  callback merges the empty object, emits \<open>connected\<close> and enables auto-save. When the
  get returned an error, the error is thrown again and nothing else is called.
\<close>

theorem load_operation:
  "getData cfg = [ClientGet (cfg_prefix cfg @ '':storage'')]
   \<and> (\<forall>r v. r \<noteq> [] \<and> json_parse P r = Inr v \<longrightarrow>
          getData_callback P cfg None (Some r)
            = ([LogInfo (''hubot-redis-brain: Data for '' @ cfg_prefix cfg
                          @ '' brain retrieved from Redis''),
                MergeData v, Emit ''connected'', SetAutoSave True], None))
   \<and> (\<forall>r x. r \<noteq> [] \<and> json_parse P r = Inl x \<longrightarrow>
          getData_callback P cfg None (Some r)
            = ([LogInfo (''hubot-redis-brain: Data for '' @ cfg_prefix cfg
                          @ '' brain retrieved from Redis'')], Some x))
   \<and> getData_callback P cfg None None
        = ([LogInfo (''hubot-redis-brain: Initializing new data for '' @ cfg_prefix cfg
                      @ '' brain''),
            MergeData (JObj []), Emit ''connected'', SetAutoSave True], None)
   \<and> getData_callback P cfg None (Some [])
        = ([LogInfo (''hubot-redis-brain: Initializing new data for '' @ cfg_prefix cfg
                      @ '' brain''),
            MergeData (JObj []), Emit ''connected'', SetAutoSave True], None)
   \<and> (\<forall>x reply. getData_callback P cfg (Some x) reply = ([], Some (Rethrown x)))"
  by (simp add: getData_def storage_key_def getData_callback_def str_or_undefined_def)

theorem load_operation_witness:
  \<open>getData_callback example_platform default_cfg None (Some ''{"a":1}'')
     = ([LogInfo ''hubot-redis-brain: Data for hubot brain retrieved from Redis'',
         MergeData (JObj [(''a'', JNum 1)]), Emit ''connected'', SetAutoSave True], None)
   \<and> getData_callback example_platform default_cfg None (Some ''not json'')
     = ([LogInfo ''hubot-redis-brain: Data for hubot brain retrieved from Redis''],
        Some SyntaxError)
   \<and> getData_callback example_platform default_cfg None None
     = ([LogInfo ''hubot-redis-brain: Initializing new data for hubot brain'',
         MergeData (JObj []), Emit ''connected'', SetAutoSave True], None)
   \<and> getData_callback example_platform default_cfg
        (Some \<lparr>message = ''Connection lost'', stack = ''Error: Connection lost''\<rparr>) None
     = ([], Some (Rethrown \<lparr>message = ''Connection lost'', stack = ''Error: Connection lost''\<rparr>))\<close>
proof -
  have p: \<open>''{"a":1}'' \<noteq> [] \<and> json_parse example_platform ''{"a":1}'' = Inr (JObj [(''a'', JNum 1)])\<close>
    and q: "''not json'' \<noteq> [] \<and> json_parse example_platform ''not json'' = Inl SyntaxError"
    and c: "cfg_prefix default_cfg = ''hubot''"
    by (simp_all add: example_platform_def example_vcap_def default_cfg_def)
  show ?thesis
    using p q load_operation [of default_cfg example_platform]
    by (simp add: c)
qed

text \<open>
  The claim C2 without the condition on \<open>JSON.parse\<close> fails: the reply \<open>not json\<close> is
  a non-empty value, and the callback logs and throws; it does not merge, does not emit
  \<open>connected\<close> and does not enable auto-save.
\<close>

theorem load_rejected_reply_counterexample:
  "getData_callback example_platform default_cfg None (Some ''not json'')
     = ([LogInfo ''hubot-redis-brain: Data for hubot brain retrieved from Redis''],
        Some SyntaxError)"
  by (simp add: getData_callback_def example_platform_def example_vcap_def default_cfg_def
      str_or_undefined_def)

section \<open>Save and load: properties\<close>

text \<open>
  A save followed by a load, as far as the adapter goes: the \<open>save\<close> handler writes
  \<open>JSON.stringify(d)\<close> at the key \<open>prefix:storage\<close>, \<open>getData\<close> reads the same key, and
  the callback merges what \<open>JSON.parse\<close> makes of the stored text. That the parsed value
  is \<open>d\<close> again is a property of the runtime's \<open>JSON.stringify\<close> and \<open>JSON.parse\<close>; it
  is a hypothesis here and is not shown.
\<close>

lemma save_then_load_same_text:
  "json_parse P (json_stringify P (JObj kvs)) = Inr (JObj kvs) \<and> json_stringify P (JObj kvs) \<noteq> [] \<longrightarrow>
     step P cfg (BrainSave (Some (JObj kvs)))
       = ([ClientSet (cfg_prefix cfg @ '':storage'') (json_stringify P (JObj kvs))], None)
     \<and> getData cfg = [ClientGet (cfg_prefix cfg @ '':storage'')]
     \<and> step P cfg
          (redis_get_reply
             (foldl redis_exec db (fst (step P cfg (BrainSave (Some (JObj kvs))))))
             (cfg_prefix cfg @ '':storage''))
        = ([LogInfo (''hubot-redis-brain: Data for '' @ cfg_prefix cfg
                      @ '' brain retrieved from Redis''),
            MergeData (JObj kvs), Emit ''connected'', SetAutoSave True], None)"
  by (simp add: handler_defs redis_get_reply_def str_or_undefined_def)

lemma save_then_load_same_text_example:
  \<open>step example_platform default_cfg (BrainSave (Some (JObj [(''a'', JNum 1)])))
     = ([ClientSet ''hubot:storage'' ''{"a":1}''], None)
   \<and> step example_platform default_cfg
        (redis_get_reply
           (foldl redis_exec Map.empty
              (fst (step example_platform default_cfg (BrainSave (Some (JObj [(''a'', JNum 1)]))))))
           ''hubot:storage'')
     = ([LogInfo ''hubot-redis-brain: Data for hubot brain retrieved from Redis'',
         MergeData (JObj [(''a'', JNum 1)]), Emit ''connected'', SetAutoSave True], None)\<close>
proof -
  have h: "json_parse example_platform (json_stringify example_platform (JObj [(''a'', JNum 1)]))
             = Inr (JObj [(''a'', JNum 1)])
           \<and> json_stringify example_platform (JObj [(''a'', JNum 1)]) \<noteq> []"
    by (simp add: example_platform_def)
  have s: \<open>json_stringify example_platform (JObj [(''a'', JNum 1)]) = ''{"a":1}''\<close>
    and q: "cfg_prefix default_cfg = ''hubot''"
    by (simp_all add: example_platform_def default_cfg_def)
  from save_then_load_same_text [of example_platform "[(''a'', JNum 1)]" default_cfg Map.empty] h
  have "step example_platform default_cfg (BrainSave (Some (JObj [(''a'', JNum 1)])))
       = ([ClientSet (cfg_prefix default_cfg @ '':storage'')
            (json_stringify example_platform (JObj [(''a'', JNum 1)]))], None)"
    and "step example_platform default_cfg
          (redis_get_reply
             (foldl redis_exec Map.empty
                (fst (step example_platform default_cfg (BrainSave (Some (JObj [(''a'', JNum 1)]))))))
             (cfg_prefix default_cfg @ '':storage''))
        = ([LogInfo (''hubot-redis-brain: Data for '' @ cfg_prefix default_cfg
                      @ '' brain retrieved from Redis''),
            MergeData (JObj [(''a'', JNum 1)]), Emit ''connected'', SetAutoSave True], None)"
    by blast+
  then show ?thesis by (simp add: s q)
qed




section \<open>The service-binding path: properties\<close>

text \<open>
  Claim C7. With \<open>VCAP_SERVICES\<close> a JSON text for an object of services, the service
  named by \<open>CF_REDIS_SERVICE\<close> an array, the first instance in it whose name is
  \<open>CF_REDIS_INSTANCE_NAME\<close> an object with credentials, the password and the host
  strings and the port a string or a number, \<open>buildCloudFoundryURL\<close> returns
  \<open>redis://:password@host:port/instance-name\<close>, the host being the \<open>hostname\<close> of the
  credentials when they have one and their \<open>host\<close> otherwise, and a numeric port printed
  as the runtime prints numbers. It throws a TypeError when the service is absent, when
  no instance has the name, and when the instance has no credentials. A text that is not
  JSON is used as the descriptor as it is. The exception leaves the module function:
  startup ends with it, after the log line and before any client is created.
\<close>

theorem cloud_foundry_url:
  "(cf_env e text svc nm \<and> json_parse P text = Inr (JObj services)
      \<and> map_of services svc = Some (JArr (pre @ JObj inst # post))
      \<and> list_all (other_instance nm) pre
      \<and> map_of inst ''name'' = Some (JStr nm) \<and> map_of inst ''credentials'' = Some (JObj creds)
      \<and> map_of creds ''password'' = Some (JStr pw)
      \<and> (map_of creds ''hostname'' = Some (JStr h)
           \<or> map_of creds ''hostname'' = None \<and> map_of creds ''host'' = Some (JStr h))
      \<and> (map_of creds ''port'' = Some (JStr p)
           \<or> (\<exists>n. map_of creds ''port'' = Some (JNum n) \<and> p = number_to_string P n))
     \<longrightarrow> buildCloudFoundryURL P e
          = Inr (''redis://:'' @ pw @ ''@'' @ h @ '':'' @ p @ ''/'' @ nm))
   \<and> (cf_env e text svc nm \<and> json_parse P text = Inr (JObj services)
        \<and> map_of services svc = None
       \<longrightarrow> buildCloudFoundryURL P e = Inl TypeError)
   \<and> (cf_env e text svc nm \<and> json_parse P text = Inr (JObj services)
        \<and> map_of services svc = Some (JArr insts) \<and> list_all (other_instance nm) insts
       \<longrightarrow> buildCloudFoundryURL P e = Inl TypeError)
   \<and> (cf_env e text svc nm \<and> json_parse P text = Inr (JObj services)
        \<and> map_of services svc = Some (JArr (pre @ JObj inst # post))
        \<and> list_all (other_instance nm) pre
        \<and> map_of inst ''name'' = Some (JStr nm) \<and> map_of inst ''credentials'' = None
       \<longrightarrow> buildCloudFoundryURL P e = Inl TypeError)
   \<and> (e ''VCAP_SERVICES'' = Some text \<and> json_parse P text = Inl x
       \<longrightarrow> parse_services P e = Some (JStr text))
   \<and> (getRedisEnv e = Some ''CF_REDIS_INSTANCE_NAME'' \<and> buildCloudFoundryURL P e = Inl x
       \<longrightarrow> module_exports P e
            = ([LogInfo (''hubot-redis-brain: Discovered redis from CF_REDIS_INSTANCE_NAME''
                         @ '' environment variable. Pulling from VCAP'')], Inl x))"
proof (intro conjI impI)
  assume "e ''VCAP_SERVICES'' = Some text \<and> json_parse P text = Inl x"
  then show "parse_services P e = Some (JStr text)"
    by (simp add: parse_services_def str_or_undefined_def)
qed (elim conjE, erule build_url build_no_service build_no_instance build_no_credentials
      build_failure_propagates, assumption+)+

theorem cloud_foundry_url_witness:
  \<open>buildCloudFoundryURL example_platform cf_example_env
     = Inr ''redis://:s3cret@10.0.0.5:6379/hubot-prod''
   \<and> buildCloudFoundryURL example_platform (cf_example_env(''CF_REDIS_INSTANCE_NAME'' \<mapsto> ''other''))
     = Inr ''redis://:x@redis.internal:6380/other''
   \<and> buildCloudFoundryURL example_platform (cf_example_env(''CF_REDIS_SERVICE'' \<mapsto> ''rediscloud''))
     = Inl TypeError
   \<and> buildCloudFoundryURL example_platform (cf_example_env(''CF_REDIS_INSTANCE_NAME'' \<mapsto> ''nobody''))
     = Inl TypeError
   \<and> buildCloudFoundryURL example_platform
        (cf_example_env(''VCAP_SERVICES'' \<mapsto> ''{"p-redis":[{"name":"hubot-prod"}]}''))
     = Inl TypeError
   \<and> parse_services example_platform [''VCAP_SERVICES'' \<mapsto> ''p-redis''] = Some (JStr ''p-redis'')
   \<and> module_exports example_platform (cf_example_env(''CF_REDIS_INSTANCE_NAME'' \<mapsto> ''nobody''))
     = ([LogInfo (''hubot-redis-brain: Discovered redis from CF_REDIS_INSTANCE_NAME''
                  @ '' environment variable. Pulling from VCAP'')], Inl TypeError)\<close>
proof -
  let ?ocreds = "[(''hostname'', JStr ''redis.internal''), (''host'', JStr ''10.0.0.9''),
                  (''port'', JStr ''6380''), (''password'', JStr ''x'')]"
  let ?other = "[(''name'', JStr ''other''), (''credentials'', JObj ?ocreds)]"
  let ?creds = "[(''host'', JStr ''10.0.0.5''), (''port'', JNum 6379),
                 (''password'', JStr ''s3cret'')]"
  let ?inst = "[(''name'', JStr ''hubot-prod''), (''credentials'', JObj ?creds)]"
  let ?services = "[(''p-redis'', JArr [JObj ?other, JObj ?inst])]"
  let ?bare = "[(''name'', JStr ''hubot-prod'')]"
  let ?e1 = "cf_example_env(''CF_REDIS_INSTANCE_NAME'' \<mapsto> ''other'')"
  let ?e2 = "cf_example_env(''CF_REDIS_SERVICE'' \<mapsto> ''rediscloud'')"
  let ?e3 = "cf_example_env(''CF_REDIS_INSTANCE_NAME'' \<mapsto> ''nobody'')"
  let ?e4 = \<open>cf_example_env(''VCAP_SERVICES'' \<mapsto> ''{"p-redis":[{"name":"hubot-prod"}]}'')\<close>
  let ?e5 = "[''VCAP_SERVICES'' \<mapsto> ''p-redis'']"
  have parse: "json_parse example_platform example_vcap = Inr (JObj ?services)"
    by (simp add: example_platform_def example_services_def example_vcap_def)
  have parse4: \<open>json_parse example_platform ''{"p-redis":[{"name":"hubot-prod"}]}''
                 = Inr (JObj [(''p-redis'', JArr [JObj ?bare])])\<close>
    by (simp add: example_platform_def example_vcap_def)
  have parse5: "json_parse example_platform ''p-redis'' = Inl SyntaxError"
    by (simp add: example_platform_def example_vcap_def)
  have num: "number_to_string example_platform 6379 = ''6379''"
    by (simp add: example_platform_def)
  have h0: "cf_env cf_example_env example_vcap ''p-redis'' ''hubot-prod''
      \<and> json_parse example_platform example_vcap = Inr (JObj ?services)
      \<and> map_of ?services ''p-redis'' = Some (JArr ([JObj ?other] @ JObj ?inst # []))
      \<and> list_all (other_instance ''hubot-prod'') [JObj ?other]
      \<and> map_of ?inst ''name'' = Some (JStr ''hubot-prod'')
      \<and> map_of ?inst ''credentials'' = Some (JObj ?creds)
      \<and> map_of ?creds ''password'' = Some (JStr ''s3cret'')
      \<and> (map_of ?creds ''hostname'' = Some (JStr ''10.0.0.5'')
           \<or> map_of ?creds ''hostname'' = None \<and> map_of ?creds ''host'' = Some (JStr ''10.0.0.5''))
      \<and> (map_of ?creds ''port'' = Some (JStr ''6379'')
           \<or> (\<exists>n. map_of ?creds ''port'' = Some (JNum n)
                 \<and> ''6379'' = number_to_string example_platform n))"
    using parse num by (simp add: cf_env_def cf_example_env_def other_instance_def)
  have h1: "cf_env ?e1 example_vcap ''p-redis'' ''other''
      \<and> json_parse example_platform example_vcap = Inr (JObj ?services)
      \<and> map_of ?services ''p-redis'' = Some (JArr ([] @ JObj ?other # [JObj ?inst]))
      \<and> list_all (other_instance ''other'') []
      \<and> map_of ?other ''name'' = Some (JStr ''other'')
      \<and> map_of ?other ''credentials'' = Some (JObj ?ocreds)
      \<and> map_of ?ocreds ''password'' = Some (JStr ''x'')
      \<and> (map_of ?ocreds ''hostname'' = Some (JStr ''redis.internal'')
           \<or> map_of ?ocreds ''hostname'' = None
              \<and> map_of ?ocreds ''host'' = Some (JStr ''redis.internal''))
      \<and> (map_of ?ocreds ''port'' = Some (JStr ''6380'')
           \<or> (\<exists>n. map_of ?ocreds ''port'' = Some (JNum n)
                 \<and> ''6380'' = number_to_string example_platform n))"
    using parse by (simp add: cf_env_def cf_example_env_def)
  have h2: "cf_env ?e2 example_vcap ''rediscloud'' ''hubot-prod''
      \<and> json_parse example_platform example_vcap = Inr (JObj ?services)
      \<and> map_of ?services ''rediscloud'' = None"
    using parse by (simp add: cf_env_def cf_example_env_def)
  have h3: "cf_env ?e3 example_vcap ''p-redis'' ''nobody''
      \<and> json_parse example_platform example_vcap = Inr (JObj ?services)
      \<and> map_of ?services ''p-redis'' = Some (JArr [JObj ?other, JObj ?inst])
      \<and> list_all (other_instance ''nobody'') [JObj ?other, JObj ?inst]"
    using parse by (simp add: cf_env_def cf_example_env_def other_instance_def)
  have h4: \<open>cf_env ?e4 ''{"p-redis":[{"name":"hubot-prod"}]}'' ''p-redis'' ''hubot-prod''
      \<and> json_parse example_platform ''{"p-redis":[{"name":"hubot-prod"}]}''
          = Inr (JObj [(''p-redis'', JArr [JObj ?bare])])
      \<and> map_of [(''p-redis'', JArr [JObj ?bare])] ''p-redis'' = Some (JArr ([] @ JObj ?bare # []))
      \<and> list_all (other_instance ''hubot-prod'') []
      \<and> map_of ?bare ''name'' = Some (JStr ''hubot-prod'')
      \<and> map_of ?bare ''credentials'' = None\<close>
    using parse4 by (simp add: cf_env_def cf_example_env_def)
  have h5: "?e5 ''VCAP_SERVICES'' = Some ''p-redis''
      \<and> json_parse example_platform ''p-redis'' = Inl SyntaxError"
    using parse5 by simp
  have w0: "buildCloudFoundryURL example_platform cf_example_env
     = Inr (''redis://:'' @ ''s3cret'' @ ''@'' @ ''10.0.0.5'' @ '':'' @ ''6379'' @ ''/''
            @ ''hubot-prod'')"
    using h0 cloud_foundry_url [of cf_example_env example_vcap "''p-redis''" "''hubot-prod''"
        example_platform ?services "[JObj ?other]" ?inst "[]" ?creds "''s3cret''"
        "''10.0.0.5''" "''6379''"]
    by blast
  have w1: "buildCloudFoundryURL example_platform ?e1
     = Inr (''redis://:'' @ ''x'' @ ''@'' @ ''redis.internal'' @ '':'' @ ''6380'' @ ''/''
            @ ''other'')"
    using h1 cloud_foundry_url [of ?e1 example_vcap "''p-redis''" "''other''"
        example_platform ?services "[]" ?other "[JObj ?inst]" ?ocreds "''x''"
        "''redis.internal''" "''6380''"]
    by blast
  have w2: "buildCloudFoundryURL example_platform ?e2 = Inl TypeError"
    using h2 cloud_foundry_url [of ?e2 example_vcap "''rediscloud''" "''hubot-prod''"
        example_platform ?services]
    by blast
  have w3: "buildCloudFoundryURL example_platform ?e3 = Inl TypeError"
    using h3 cloud_foundry_url [of ?e3 example_vcap "''p-redis''" "''nobody''"
        example_platform ?services _ _ _ _ _ _ _ "[JObj ?other, JObj ?inst]"]
    by blast
  have w4: "buildCloudFoundryURL example_platform ?e4 = Inl TypeError"
    using h4 cloud_foundry_url [of ?e4 _ "''p-redis''" "''hubot-prod''"
        example_platform "[(''p-redis'', JArr [JObj ?bare])]" "[]" ?bare "[]"]
    by blast
  have w5: "parse_services example_platform ?e5 = Some (JStr ''p-redis'')"
    using h5 cloud_foundry_url [of ?e5 "''p-redis''" _ _ example_platform _ _ _ _ _ _ _ _ _
        SyntaxError]
    by blast
  have g: "getRedisEnv ?e3 = Some ''CF_REDIS_INSTANCE_NAME''"
    by (simp add: getRedisEnv_def cf_example_env_def)
  have w6: "module_exports example_platform ?e3
     = ([LogInfo (''hubot-redis-brain: Discovered redis from CF_REDIS_INSTANCE_NAME''
                  @ '' environment variable. Pulling from VCAP'')], Inl TypeError)"
    using g w3 cloud_foundry_url [of ?e3 _ _ _ example_platform _ _ _ _ _ _ _ _ _ TypeError]
    by blast
  show ?thesis
    using w0 w1 w2 w3 w4 w5 w6 by simp
qed

end
